theory Spec2Isabelle
  imports Main "HOL-Library.Sublist" "HOL-Library.Multiset" "HOL-Library.Product_Lexorder"
begin

section \<open>Python strings\<close>

text \<open>
  A Python \<open>str\<close> is modelled as a \<open>string\<close>, a list of 8-bit characters: the texts
  of the model are those whose code points are below 256. On these, \<open>str.lower()\<close>
  moves the capitals \<open>A\<close> to \<open>Z\<close> (65 to 90) and the capitals 192 to 222, except the
  multiplication sign 215, up by 32, and leaves every other character as it is.
\<close>

definition lower_char :: "char \<Rightarrow> char" where
  "lower_char c =
     (let n = (of_char c :: nat) in
      if (65 \<le> n \<and> n \<le> 90) \<or> (192 \<le> n \<and> n \<le> 222 \<and> n \<noteq> 215) then char_of (n + 32)
      else c)"

definition lower :: "string \<Rightarrow> string" where
  "lower s = map lower_char s"

text \<open>\<open>p in s\<close> on two strings: \<open>p\<close> occurs in \<open>s\<close> as a contiguous run.\<close>

fun str_contains :: "string \<Rightarrow> string \<Rightarrow> bool" where
  "str_contains p [] = (p = [])"
| "str_contains p (c # cs) = (prefix p (c # cs) \<or> str_contains p cs)"

text \<open>\<open>s.startswith(p)\<close> is \<^const>\<open>prefix\<close>; \<open>s[4:]\<close> is \<open>drop 4 s\<close>.\<close>

text \<open>\<open>sep.join(xs)\<close>.\<close>

fun join :: "string \<Rightarrow> string list \<Rightarrow> string" where
  "join sep [] = []"
| "join sep [x] = x"
| "join sep (x # y # ys) = x @ sep @ join sep (y # ys)"

section \<open>Intent classifier and query enhancer (agent\_adk.py)\<close>

text \<open>
  \<open>FloatChatMinimal.intent_patterns\<close>: a dict literal, iterated in insertion order, so
  it is an association list here. Each value is the list of patterns of that intent.
\<close>

definition intent_patterns :: "(string \<times> string list) list" where
  "intent_patterns =
     [(''program_overview'',
         [''what is argo'', ''how does argo work'', ''variables measured by argo'',
          ''argo program'', ''argo floats'', ''argo network'']),
      (''indian_ocean_status'',
         [''indian ocean argo'', ''status of argo floats in arabian sea'',
          ''bay of bengal floats'', ''bay of bengal'', ''bengal salinity'',
          ''salinity level'', ''argo india'', ''incois argo'', ''indian ocean status'']),
      (''find_data_access'',
         [''where to download argo data'', ''get argo profiles'',
          ''how to access argo netcdf'', ''argo data download'', ''gdac'', ''argo ftp'']),
      (''nearest_floats_concept'',
         [''nearest argo floats to'', ''floats near'', ''closest argo to coordinates'',
          ''argo map'', ''find argo floats''])]"

definition enhanced_queries :: "(string \<times> string) list" where
  "enhanced_queries =
     [(''program_overview'',
         ''Argo program overview what variables measured temperature salinity pressure ocean profiling floats how it works''),
      (''indian_ocean_status'',
         ''Indian Ocean Argo floats status current number active INCOIS Arabian Sea Bay Bengal distribution''),
      (''find_data_access'',
         ''Argo data download access GDAC global data assembly centers netCDF files instructions how to''),
      (''nearest_floats_concept'',
         ''Argo float interactive map finder location coordinates nearest search tools ocean-ops'')]"

text \<open>
  \<open>re.search(pattern, text)\<close>. Every pattern of \<^const>\<open>intent_patterns\<close> consists of
  lower-case letters and spaces only (lemma \<open>patterns_literal\<close> below), so as a regular
  expression it matches exactly its own text, anywhere in the input.
\<close>

definition re_search :: "string \<Rightarrow> string \<Rightarrow> bool" where
  "re_search pattern s = str_contains pattern s"

text \<open>The inner loop \<open>for pattern in patterns\<close>: does some pattern match?\<close>

fun match_patterns :: "string list \<Rightarrow> string \<Rightarrow> bool" where
  "match_patterns [] s = False"
| "match_patterns (pattern # patterns) s =
     (if re_search pattern s then True else match_patterns patterns s)"

text \<open>
  The outer loop \<open>for intent, patterns in self.intent_patterns.items()\<close>: \<open>Some intent\<close>
  is the \<open>return intent\<close> inside the loops, \<open>None\<close> is falling out of them.
\<close>

fun scan_intents :: "(string \<times> string list) list \<Rightarrow> string \<Rightarrow> string option" where
  "scan_intents [] s = None"
| "scan_intents ((intent, patterns) # rest) s =
     (if match_patterns patterns s then Some intent else scan_intents rest s)"

definition classify_intent :: "string \<Rightarrow> string" where
  "classify_intent user_text =
     (let user_text_lower = lower user_text in
      case scan_intents intent_patterns user_text_lower of
        Some intent \<Rightarrow> intent
      | None \<Rightarrow> ''program_overview'')"

datatype pyexc =
    RequestException
  | HTTPError
  | JSONDecodeError
  | AttributeError
  | TypeError
  | KeyError
  | ValidationError

text \<open>
  \<open>enhance_query\<close>. The default argument \<open>self.enhanced_queries["program_overview"]\<close>
  is evaluated first and would raise \<open>KeyError\<close> on a missing key; then
  \<open>dict.get(intent, default)\<close>; then the f-string \<open>f"{user_text} {base_query}"\<close>.
\<close>

definition enhance_query :: "string \<Rightarrow> string \<Rightarrow> pyexc + string" where
  "enhance_query user_text intent =
     (case map_of enhanced_queries ''program_overview'' of
        None \<Rightarrow> Inl KeyError
      | Some dflt \<Rightarrow>
          (let base_query = (case map_of enhanced_queries intent of
                               Some h \<Rightarrow> h
                             | None \<Rightarrow> dflt)
           in Inr (user_text @ '' '' @ base_query)))"

text \<open>The hint the spec associates with an intent: its entry, else the default's.\<close>

definition hint_of :: "string \<Rightarrow> string" where
  "hint_of intent =
     (if intent = ''program_overview'' then
        ''Argo program overview what variables measured temperature salinity pressure ocean profiling floats how it works''
      else if intent = ''indian_ocean_status'' then
        ''Indian Ocean Argo floats status current number active INCOIS Arabian Sea Bay Bengal distribution''
      else if intent = ''find_data_access'' then
        ''Argo data download access GDAC global data assembly centers netCDF files instructions how to''
      else if intent = ''nearest_floats_concept'' then
        ''Argo float interactive map finder location coordinates nearest search tools ocean-ops''
      else
        ''Argo program overview what variables measured temperature salinity pressure ocean profiling floats how it works'')"

text \<open>Is the text matched by some pattern of the intent? Is one intent declared before another?\<close>

fun index_of :: "'a \<Rightarrow> 'a list \<Rightarrow> nat" where
  "index_of x [] = 0"
| "index_of x (y # ys) = (if x = y then 0 else Suc (index_of x ys))"

definition matches_intent :: "string \<Rightarrow> string \<Rightarrow> bool" where
  "matches_intent intent user_text =
     (case map_of intent_patterns intent of
        Some patterns \<Rightarrow> match_patterns patterns (lower user_text)
      | None \<Rightarrow> False)"

definition declared_before :: "string \<Rightarrow> string \<Rightarrow> bool" where
  "declared_before a b =
     (let names = map fst intent_patterns in
      a \<in> set names \<and> b \<in> set names \<and> index_of a names < index_of b names)"

section \<open>JSON values and the Python operations on them\<close>

text \<open>
  What \<open>response.json()\<close> returns. An object is the association list of its items in
  order (looked up with \<^const>\<open>map_of\<close>); a number is modelled by an integer, of which
  the code only ever uses whether it is zero (truthiness) and that it is not a
  container.
\<close>

datatype json =
    JNull
  | JBool bool
  | JNum int
  | JStr string
  | JArr "json list"
  | JObj "(string \<times> json) list"

text \<open>\<open>bool(v)\<close>: \<open>None\<close>, \<open>False\<close>, zero and every empty container are false.\<close>

fun truthy :: "json \<Rightarrow> bool" where
  "truthy JNull = False"
| "truthy (JBool b) = b"
| "truthy (JNum n) = (n \<noteq> 0)"
| "truthy (JStr s) = (s \<noteq> [])"
| "truthy (JArr xs) = (xs \<noteq> [])"
| "truthy (JObj kvs) = (kvs \<noteq> [])"

text \<open>\<open>a or b\<close>.\<close>

definition py_or :: "json \<Rightarrow> json \<Rightarrow> json" where
  "py_or a b = (if truthy a then a else b)"

text \<open>
  \<open>k in v\<close> for a string \<open>k\<close>: a key of a dict, an element of a list, a substring of a
  string; \<open>TypeError\<close> on \<open>None\<close>, a bool or a number.
\<close>

fun py_in :: "string \<Rightarrow> json \<Rightarrow> pyexc + bool" where
  "py_in k (JObj kvs) = Inr ((k \<in> set (map fst kvs)))"
| "py_in k (JArr xs) = Inr ((JStr k \<in> set xs))"
| "py_in k (JStr s) = Inr (str_contains k s)"
| "py_in k JNull = Inl TypeError"
| "py_in k (JBool b) = Inl TypeError"
| "py_in k (JNum n) = Inl TypeError"

text \<open>
  \<open>v[k]\<close> for a string \<open>k\<close>: the value of a dict (\<open>KeyError\<close> when absent);
  \<open>TypeError\<close> on everything else (a list or a string takes integer indices only).
\<close>

fun py_getitem :: "json \<Rightarrow> string \<Rightarrow> pyexc + json" where
  "py_getitem (JObj kvs) k = (case map_of kvs k of Some v \<Rightarrow> Inr v | None \<Rightarrow> Inl KeyError)"
| "py_getitem (JArr xs) k = Inl TypeError"
| "py_getitem (JStr s) k = Inl TypeError"
| "py_getitem JNull k = Inl TypeError"
| "py_getitem (JBool b) k = Inl TypeError"
| "py_getitem (JNum n) k = Inl TypeError"

text \<open>\<open>v.get(k, default)\<close>: only a dict has the method; \<open>AttributeError\<close> otherwise.\<close>

fun dict_get :: "json \<Rightarrow> string \<Rightarrow> json \<Rightarrow> pyexc + json" where
  "dict_get (JObj kvs) k dflt = (case map_of kvs k of Some v \<Rightarrow> Inr v | None \<Rightarrow> Inr dflt)"
| "dict_get (JArr xs) k dflt = Inl AttributeError"
| "dict_get (JStr s) k dflt = Inl AttributeError"
| "dict_get JNull k dflt = Inl AttributeError"
| "dict_get (JBool b) k dflt = Inl AttributeError"
| "dict_get (JNum n) k dflt = Inl AttributeError"

text \<open>
  What \<open>for ... in enumerate(v)\<close> iterates over: the elements of a list, the keys of a
  dict, the one-character strings of a string; \<open>TypeError\<close> on the rest.
\<close>

fun py_iter :: "json \<Rightarrow> pyexc + json list" where
  "py_iter (JArr xs) = Inr xs"
| "py_iter (JObj kvs) = Inr (map (\<lambda>kv. JStr (fst kv)) kvs)"
| "py_iter (JStr s) = Inr (map (\<lambda>c. JStr [c]) s)"
| "py_iter JNull = Inl TypeError"
| "py_iter (JBool b) = Inl TypeError"
| "py_iter (JNum n) = Inl TypeError"

text \<open>\<open>xs[:k]\<close>: a negative \<open>k\<close> counts from the end.\<close>

definition py_slice_to :: "'a list \<Rightarrow> int \<Rightarrow> 'a list" where
  "py_slice_to xs k = (if 0 \<le> k then take (nat k) xs else take (length xs - nat (- k)) xs)"

section \<open>The search tool (web\_search\_tool.py)\<close>

text \<open>
  \<open>class SearchResult(BaseModel)\<close>. The constructor validates \<open>rank\<close>, \<open>title\<close>,
  \<open>url\<close>, \<open>snippet\<close> and \<open>source\<close>. \<open>published\<close> and \<open>updated\<close> default to \<open>None\<close>
  (\<^const>\<open>JNull\<close>) and \<open>search\<close> sets \<open>published\<close> by plain assignment, which pydantic
  does not validate: the field then holds whatever JSON value \<open>_extract_date\<close> found
  in the page metadata. They are therefore JSON values here.
\<close>

record SearchResult =
  rank :: int
  title :: string
  url :: string
  snippet :: string
  published :: json
  updated :: json
  source :: string

record SearchResponse =
  results :: "SearchResult list"

definition priority_domains :: "string list" where
  "priority_domains =
     [''incois.gov.in'', ''argo.ucsd.edu'', ''doi.org'', ''www.ocean-ops.org'',
      ''www.usgodae.org'', ''www.seanoe.org'', ''www.ncei.noaa.gov'', ''www.jcommops.org'',
      ''www.euro-argo.eu'', ''www.ifremer.fr'']"

definition disallowed_patterns :: "string list" where
  "disallowed_patterns =
     [''facebook.com'', ''twitter.com'', ''instagram.com'',
      ''contentfarm'', ''ai-written'', ''generated-content'']"

definition base_url :: string where
  "base_url = ''https://www.googleapis.com/customsearch/v1''"

definition cx :: string where
  "cx = ''017576662512468239146:omuauf_lfve''"

text \<open>
  What the code takes as given from its libraries:
  \<^item> \<open>netloc_of u\<close> is \<open>urlparse(u).netloc\<close> for a string \<open>u\<close>, \<open>None\<close> when
    \<open>urlparse\<close> raises;
  \<^item> \<open>str_validate v\<close> is pydantic's validation of \<open>v\<close> for a field of type \<open>str\<close>:
    \<open>Some s\<close> the accepted string, \<open>None\<close> when the value is rejected (the constructor
    then raises \<open>ValidationError\<close>);
  \<^item> \<open>error_text vs\<close> is \<open>str(e)\<close> of the \<open>ValidationError\<close> raised for the field values
    \<open>vs\<close>.
\<close>

record pylib =
  netloc_of :: "string \<Rightarrow> string option"
  str_validate :: "json \<Rightarrow> string option"
  error_text :: "json list \<Rightarrow> string"

text \<open>
  \<open>_extract_domain\<close>. The whole body is under a bare \<open>except\<close> that returns \<open>""\<close>. For a
  \<open>url\<close> that is not a string, \<open>urlparse\<close> either raises or returns bytes, on which
  \<open>startswith("www.")\<close> raises: the result is \<open>""\<close> too.
\<close>

definition extract_domain :: "pylib \<Rightarrow> json \<Rightarrow> string" where
  "extract_domain lib url_v =
     (case url_v of
        JStr u \<Rightarrow>
          (case netloc_of lib u of
             None \<Rightarrow> []
           | Some netloc \<Rightarrow>
               (let domain = lower netloc in
                if prefix ''www.'' domain then drop 4 domain else domain))
      | _ \<Rightarrow> [])"

text \<open>\<open>_is_disallowed_domain\<close>: \<open>any(pattern in domain_lower for pattern in ...)\<close>.\<close>

definition is_disallowed_domain :: "string \<Rightarrow> bool" where
  "is_disallowed_domain domain =
     (let domain_lower = lower domain in
      list_ex (\<lambda>pattern. str_contains pattern domain_lower) disallowed_patterns)"

text \<open>
  \<open>_extract_date\<close>. The inner loop over the date keys of one metadata item:
  \<open>Inr (Some v)\<close> is \<open>return item[date_key]\<close>, \<open>Inr None\<close> is leaving the loop.
\<close>

fun extract_date_keys :: "json \<Rightarrow> string list \<Rightarrow> pyexc + json option" where
  "extract_date_keys item [] = Inr None"
| "extract_date_keys item (date_key # rest) =
     (case py_in date_key item of
        Inl e \<Rightarrow> Inl e
      | Inr True \<Rightarrow> map_sum id Some (py_getitem item date_key)
      | Inr False \<Rightarrow> extract_date_keys item rest)"

text \<open>The outer loop over the metadata fields.\<close>

fun extract_date_fields :: "json \<Rightarrow> string list \<Rightarrow> pyexc + json option" where
  "extract_date_fields meta [] = Inr None"
| "extract_date_fields meta (field # rest) =
     (case py_in field meta of
        Inl e \<Rightarrow> Inl e
      | Inr False \<Rightarrow> extract_date_fields meta rest
      | Inr True \<Rightarrow>
          (case py_getitem meta field of
             Inl e \<Rightarrow> Inl e
           | Inr items \<Rightarrow>
               (case items of
                  JArr (item # _) \<Rightarrow>
                    (case extract_date_keys item
                            [''published_time'', ''modified_time'', ''date'', ''publishdate''] of
                       Inl e \<Rightarrow> Inl e
                     | Inr (Some v) \<Rightarrow> Inr (Some v)
                     | Inr None \<Rightarrow> extract_date_fields meta rest)
                | _ \<Rightarrow> extract_date_fields meta rest)))"

definition extract_date :: "json \<Rightarrow> pyexc + json" where
  "extract_date meta =
     (case extract_date_fields meta [''metatags'', ''article'', ''webpage'', ''newsarticle''] of
        Inl e \<Rightarrow> Inl e
      | Inr (Some v) \<Rightarrow> Inr v
      | Inr None \<Rightarrow> Inr JNull)"

text \<open>\<open>priority_score\<close>, the sort key of \<open>_sort_by_priority\<close>, in its three components.\<close>

definition priority_idx :: "string \<Rightarrow> nat" where
  "priority_idx domain =
     (if domain \<in> set priority_domains then index_of domain priority_domains
      else length priority_domains)"

text \<open>
  The \<open>try\<close> around the year tests turns a \<open>TypeError\<close> of \<open>in\<close> (a date that is a
  number or a bool) into the score 0.
\<close>

definition recency_score :: "SearchResult \<Rightarrow> int" where
  "recency_score result =
     (if truthy (py_or (published result) (updated result)) then
        (let date_str = py_or (published result) (updated result) in
         case py_in ''2024'' date_str of
           Inl e \<Rightarrow> 0
         | Inr True \<Rightarrow> - 1
         | Inr False \<Rightarrow>
             (case py_in ''2025'' date_str of
                Inl e \<Rightarrow> 0
              | Inr True \<Rightarrow> - 1
              | Inr False \<Rightarrow>
                  (case py_in ''2023'' date_str of
                     Inl e \<Rightarrow> 0
                   | Inr True \<Rightarrow> 0
                   | Inr False \<Rightarrow> 1)))
      else 0)"

definition priority_score :: "SearchResult \<Rightarrow> nat \<times> int \<times> int" where
  "priority_score result = (priority_idx (source result), recency_score result, rank result)"

text \<open>
  \<open>sorted(results, key=priority_score)\<close>: Python's sort is stable, and tuples compare
  lexicographically (the order of \<open>HOL-Library.Product_Lexorder\<close>). \<^const>\<open>sort_key\<close> is
  a stable sort as well, and a list has one stable sorting.
\<close>

definition sort_by_priority :: "SearchResult list \<Rightarrow> SearchResult list" where
  "sort_by_priority rs = sort_key priority_score rs"

text \<open>
  One turn of the loop \<open>for idx, item in enumerate(items)\<close>: \<open>Inr None\<close> is the
  \<open>continue\<close> of a disallowed domain, \<open>Inr (Some result)\<close> the appended result, \<open>Inl e\<close>
  an exception raised on the way.
\<close>

definition parse_item :: "pylib \<Rightarrow> nat \<Rightarrow> json \<Rightarrow> pyexc + SearchResult option" where
  "parse_item lib idx item =
     (case dict_get item ''link'' (JStr []) of
        Inl e \<Rightarrow> Inl e
      | Inr url_v \<Rightarrow>
          (let domain = extract_domain lib url_v in
           if is_disallowed_domain domain then Inr None
           else
             (case dict_get item ''title'' (JStr []) of
                Inl e \<Rightarrow> Inl e
              | Inr title_v \<Rightarrow>
             (case dict_get item ''snippet'' (JStr []) of
                Inl e \<Rightarrow> Inl e
              | Inr snippet_v \<Rightarrow>
             (case (str_validate lib title_v, str_validate lib url_v,
                    str_validate lib snippet_v) of
                (Some t, Some u, Some s) \<Rightarrow>
                  (let result = \<lparr>rank = int idx + 1, title = t, url = u, snippet = s,
                                  published = JNull, updated = JNull, source = domain\<rparr>
                   in case py_in ''pagemap'' item of
                        Inl e \<Rightarrow> Inl e
                      | Inr False \<Rightarrow> Inr (Some result)
                      | Inr True \<Rightarrow>
                          (case py_getitem item ''pagemap'' of
                             Inl e \<Rightarrow> Inl e
                           | Inr meta \<Rightarrow>
                               (case extract_date meta of
                                  Inl e \<Rightarrow> Inl e
                                | Inr d \<Rightarrow> Inr (Some (result\<lparr>published := d\<rparr>)))))
              | _ \<Rightarrow> Inl ValidationError)))))"

fun parse_items :: "pylib \<Rightarrow> nat \<Rightarrow> json list \<Rightarrow> SearchResult list \<Rightarrow> pyexc + SearchResult list"
  where
  "parse_items lib idx [] acc = Inr acc"
| "parse_items lib idx (item # rest) acc =
     (case parse_item lib idx item of
        Inl e \<Rightarrow> Inl e
      | Inr None \<Rightarrow> parse_items lib (Suc idx) rest acc
      | Inr (Some result) \<Rightarrow> parse_items lib (Suc idx) rest (acc @ [result]))"

text \<open>
  The request: the \<open>params\<close> dict handed to \<open>requests.get\<close>, and what came back.
  \<^item> \<open>Raised\<close>: \<open>requests.get\<close> raised a \<open>RequestException\<close> (connection error, timeout);
  \<^item> \<open>Response status body\<close>: a response arrived with this status code; \<open>json()\<close>
    returns \<open>v\<close> when \<open>body = Some v\<close> and raises when \<open>body = None\<close>.
\<close>

record params =
  p_key :: string
  p_cx :: string
  p_q :: string
  p_num :: int
  p_safe :: string
  p_dateRestrict :: "string option"

datatype http_outcome = Raised | Response int "json option"

text \<open>
  \<open>response.raise_for_status()\<close> of the requests library raises \<open>HTTPError\<close> for the
  client and server error codes, 400 to 599, and for no other status.
\<close>

definition status_raises :: "int \<Rightarrow> bool" where
  "status_raises status = (400 \<le> status \<and> status < 600)"

definition search_params :: "string \<Rightarrow> string \<Rightarrow> string list option \<Rightarrow> string \<Rightarrow> int \<Rightarrow> params"
  where
  "search_params api_key query site_filter time_range top_k =
     \<lparr>p_key = api_key,
      p_cx = cx,
      p_q = (case site_filter of
               None \<Rightarrow> query
             | Some [] \<Rightarrow> query
             | Some domains \<Rightarrow>
                 query @ '' ('' @ join '' OR '' (map (\<lambda>domain. ''site:'' @ domain) domains) @ '')''),
      p_num = min top_k 10,
      p_safe = ''active'',
      p_dateRestrict =
        (if time_range \<noteq> ''any'' then
           Some (case map_of [(''week'', ''d7''), (''month'', ''m1''), (''year'', ''y1'')] time_range of
                   Some d \<Rightarrow> d
                 | None \<Rightarrow> ''y1'')
         else None)\<rparr>"

text \<open>The body of the \<open>try\<close> of \<open>search\<close>, after the request.\<close>

definition search_try :: "pylib \<Rightarrow> http_outcome \<Rightarrow> int \<Rightarrow> pyexc + SearchResponse" where
  "search_try lib outcome top_k =
     (case outcome of
        Raised \<Rightarrow> Inl RequestException
      | Response status body \<Rightarrow>
          if status_raises status then Inl HTTPError
          else
            (case body of
               None \<Rightarrow> Inl JSONDecodeError
             | Some data \<Rightarrow>
                 (case dict_get data ''items'' (JArr []) of
                    Inl e \<Rightarrow> Inl e
                  | Inr items \<Rightarrow>
                      (case py_iter items of
                         Inl e \<Rightarrow> Inl e
                       | Inr its \<Rightarrow>
                           (case parse_items lib 0 its [] of
                              Inl e \<Rightarrow> Inl e
                            | Inr rs \<Rightarrow>
                                Inr \<lparr>results = py_slice_to (sort_by_priority rs) top_k\<rparr>)))))"

text \<open>
  \<open>WebSearchTool.search\<close>: the request is made once, with the parameters built from the
  arguments; both \<open>except\<close> clauses return the empty response. The second component is
  the list of requests made to the backend.
\<close>

definition is_RequestException :: "pyexc \<Rightarrow> bool" where
  "is_RequestException e = (e = RequestException \<or> e = HTTPError)"

definition search ::
  "pylib \<Rightarrow> (params \<Rightarrow> http_outcome) \<Rightarrow> string \<Rightarrow> string \<Rightarrow> string list option \<Rightarrow> string \<Rightarrow> int
     \<Rightarrow> SearchResponse \<times> params list"
  where
  "search lib backend api_key query site_filter time_range top_k =
     (let ps = search_params api_key query site_filter time_range top_k in
      (case search_try lib (backend ps) top_k of
         Inr response \<Rightarrow> response
       | Inl e \<Rightarrow>
           if is_RequestException e then \<lparr>results = []\<rparr> else \<lparr>results = []\<rparr>,
       [ps]))"

section \<open>The direct-search endpoint (api.py)\<close>

record SearchRequest =
  rq_query :: string
  rq_site_filter :: "string list option"
  rq_time_range :: string
  rq_top_k :: int

record ApiSearchResult =
  a_rank :: int
  a_title :: string
  a_url :: string
  a_snippet :: string
  a_published :: "string option"
  a_updated :: "string option"
  a_source :: string

record ApiSearchResponse =
  a_results :: "ApiSearchResult list"
  a_timestamp :: string

datatype http_error = HTTPException (status_code: int) (detail: string)

text \<open>
  pydantic's validation of a field of type \<open>Optional[str]\<close>: \<open>None\<close> is accepted as it
  is, any other value is validated as a \<open>str\<close>. The outer \<open>None\<close> is a rejected value.
\<close>

definition opt_str_validate :: "pylib \<Rightarrow> json \<Rightarrow> string option option" where
  "opt_str_validate lib v = (if v = JNull then Some None else map_option Some (str_validate lib v))"

text \<open>
  The api's own \<open>SearchResult(...)\<close> built from one result of the tool: \<open>Inl msg\<close> is
  the \<open>ValidationError\<close> of a \<open>published\<close> or \<open>updated\<close> that is not a string, with its
  text.
\<close>

definition reformat :: "pylib \<Rightarrow> SearchResult \<Rightarrow> string + ApiSearchResult" where
  "reformat lib result =
     (case (opt_str_validate lib (published result), opt_str_validate lib (updated result)) of
        (Some p, Some u) \<Rightarrow>
          Inr \<lparr>a_rank = rank result, a_title = title result, a_url = url result,
               a_snippet = snippet result, a_published = p, a_updated = u,
               a_source = source result\<rparr>
      | _ \<Rightarrow> Inl (error_text lib [published result, updated result]))"

fun reformat_all :: "pylib \<Rightarrow> SearchResult list \<Rightarrow> string + ApiSearchResult list" where
  "reformat_all lib [] = Inr []"
| "reformat_all lib (r # rs) =
     (case reformat lib r of
        Inl msg \<Rightarrow> Inl msg
      | Inr a \<Rightarrow> map_sum id ((#) a) (reformat_all lib rs))"

text \<open>
  The \<open>/search\<close> endpoint. \<open>now\<close> is \<open>datetime.now().isoformat()\<close>. An \<open>HTTPException\<close>
  raised by the validation is re-raised as it is; any other exception becomes a 500.
  The second component is the list of requests made to the backend.
\<close>

definition api_search ::
  "pylib \<Rightarrow> (params \<Rightarrow> http_outcome) \<Rightarrow> string \<Rightarrow> string \<Rightarrow> SearchRequest
     \<Rightarrow> (http_error + ApiSearchResponse) \<times> params list"
  where
  "api_search lib backend api_key now request =
     (if rq_top_k request < 1 \<or> rq_top_k request > 10 then
        (Inl (HTTPException 400 ''top_k must be between 1 and 10''), [])
      else if rq_time_range request \<notin> set [''any'', ''year'', ''month'', ''week''] then
        (Inl (HTTPException 400 ''Invalid time_range''), [])
      else
        (let (search_response, calls) =
               search lib backend api_key (rq_query request) (rq_site_filter request)
                 (rq_time_range request) (rq_top_k request)
         in case reformat_all lib (results search_response) of
              Inl msg \<Rightarrow> (Inl (HTTPException 500 (''Search failed: '' @ msg)), calls)
            | Inr rs \<Rightarrow> (Inr \<lparr>a_results = rs, a_timestamp = now\<rparr>, calls)))"

section \<open>The shape of a backend payload\<close>




section \<open>Example data\<close>

text \<open>A result with the given rank, source domain and \<open>published\<close> value, for the examples.\<close>

definition example_result :: "int \<Rightarrow> string \<Rightarrow> json \<Rightarrow> SearchResult" where
  "example_result n d p =
     \<lparr>rank = n, title = ''t'', url = ''https://'' @ d @ ''/'', snippet = ''s'',
      published = p, updated = JNull, source = d\<rparr>"

text \<open>
  A stand-in for the library calls, for the examples: the host of a URL of the form
  \<open>scheme://host/path\<close>, and the validation that accepts exactly the JSON strings.
\<close>

definition example_netloc :: "string \<Rightarrow> string option" where
  "example_netloc u =
     (let rest = drop 2 (dropWhile (\<lambda>c. c \<noteq> CHR ''/'') u)
      in Some (takeWhile (\<lambda>c. c \<noteq> CHR ''/'') rest))"

definition example_validate :: "json \<Rightarrow> string option" where
  "example_validate v = (case v of JStr s \<Rightarrow> Some s | _ \<Rightarrow> None)"

definition example_lib :: pylib where
  "example_lib =
     \<lparr>netloc_of = example_netloc, str_validate = example_validate,
      error_text = (\<lambda>vs. ''Input should be a valid string'')\<rparr>"

text \<open>A backend hit with the given link.\<close>

definition example_hit :: "string \<Rightarrow> json" where
  "example_hit link = JObj [(''title'', JStr ''t''), (''link'', JStr link), (''snippet'', JStr ''s'')]"

text \<open>
  A payload of five hits: an unlisted domain, a disallowed one, two listed ones (one
  with a date in its page metadata) and a listed one behind \<open>www.\<close>.
\<close>

definition example_payload :: json where
  "example_payload =
     JObj [(''kind'', JStr ''customsearch#search''),
           (''items'',
            JArr [example_hit ''https://unknown.example/a'',
                  example_hit ''https://www.facebook.com/argo'',
                  example_hit ''https://argo.ucsd.edu/about'',
                  JObj [(''title'', JStr ''t''), (''link'', JStr ''https://doi.org/x''),
                        (''snippet'', JStr ''s''),
                        (''pagemap'',
                         JObj [(''metatags'', JArr [JObj [(''date'', JStr ''2024-05-01'')]])])],
                  example_hit ''https://www.incois.gov.in/argo''])]"

definition example_backend :: "params \<Rightarrow> http_outcome" where
  "example_backend ps = Response 200 (Some example_payload)"

section \<open>Properties of the classifier\<close>

lemma str_contains_iff: "str_contains p s \<longleftrightarrow> (\<exists>a b. s = a @ p @ b)"
proof (induction s)
  case Nil
  then show ?case by auto
next
  case (Cons c cs)
  show ?case
  proof
    assume "str_contains p (c # cs)"
    then consider "prefix p (c # cs)" | "str_contains p cs" by auto
    then show "\<exists>a b. c # cs = a @ p @ b"
    proof cases
      case 1
      then obtain b where "c # cs = p @ b" by (auto simp: prefix_def)
      then have "c # cs = [] @ p @ b" by simp
      then show ?thesis by blast
    next
      case 2
      with Cons.IH obtain a b where "cs = a @ p @ b" by blast
      then have "c # cs = (c # a) @ p @ b" by simp
      then show ?thesis by blast
    qed
  next
    assume "\<exists>a b. c # cs = a @ p @ b"
    then obtain a b where ab: "c # cs = a @ p @ b" by blast
    show "str_contains p (c # cs)"
    proof (cases a)
      case Nil
      with ab have "prefix p (c # cs)" by (simp add: prefix_def)
      then show ?thesis by simp
    next
      case (Cons a0 as)
      with ab have "cs = as @ p @ b" by simp
      with Cons.IH have "str_contains p cs" by blast
      then show ?thesis by simp
    qed
  qed
qed

lemma patterns_literal:
  "\<forall>(i, ps) \<in> set intent_patterns. \<forall>p \<in> set ps. set p \<subseteq> set ''abcdefghijklmnopqrstuvwxyz ''"
  by (simp add: intent_patterns_def)

lemma scan_intents_Some_key: "scan_intents xs s = Some i \<Longrightarrow> i \<in> fst ` set xs"
  by (induction xs s rule: scan_intents.induct) (auto split: if_splits)

text \<open>With four intents the two loops are a chain of four tests.\<close>

lemma classify_cases:
  "classify_intent T =
     (if matches_intent ''program_overview'' T then ''program_overview''
      else if matches_intent ''indian_ocean_status'' T then ''indian_ocean_status''
      else if matches_intent ''find_data_access'' T then ''find_data_access''
      else if matches_intent ''nearest_floats_concept'' T then ''nearest_floats_concept''
      else ''program_overview'')"
  by (simp add: classify_intent_def matches_intent_def intent_patterns_def)

lemma declared_before_cases:
  "declared_before a b \<longleftrightarrow>
     (a = ''program_overview'' \<and> b \<in> {''indian_ocean_status'', ''find_data_access'', ''nearest_floats_concept''})
   \<or> (a = ''indian_ocean_status'' \<and> b \<in> {''find_data_access'', ''nearest_floats_concept''})
   \<or> (a = ''find_data_access'' \<and> b = ''nearest_floats_concept'')"
  by (auto simp add: declared_before_def intent_patterns_def)

lemma match_patterns_iff: "match_patterns ps s \<longleftrightarrow> (\<exists>p \<in> set ps. re_search p s)"
  by (induction ps) auto

lemma scan_intents_None_iff:
  "scan_intents xs s = None \<longleftrightarrow> (\<forall>(i, ps) \<in> set xs. \<not> match_patterns ps s)"
  by (induction xs s rule: scan_intents.induct) auto

text \<open>
  Claim C7. \<open>classify_intent\<close> is a total function of its text: for every text it returns
  one of the four declared intents. For every text that matches no pattern (no
  pattern of any intent occurs in the lower-cased text) it returns the default
  \<open>program_overview\<close>; the empty string and \<open>"zzz_no_match_zzz"\<close> are such texts.
\<close>

theorem classify_intent_total:
  "classify_intent T \<in> set (map fst intent_patterns)
   \<and> classify_intent T \<in> {''program_overview'', ''indian_ocean_status'',
                           ''find_data_access'', ''nearest_floats_concept''}
   \<and> ((\<forall>(intent, patterns) \<in> set intent_patterns.
          \<forall>pattern \<in> set patterns. \<not> re_search pattern (lower T))
        \<longrightarrow> classify_intent T = ''program_overview'')
   \<and> ((\<forall>intent. \<not> matches_intent intent T) \<longrightarrow> classify_intent T = ''program_overview'')
   \<and> classify_intent [] = ''program_overview''
   \<and> classify_intent ''zzz_no_match_zzz'' = ''program_overview''"
proof -
  have mem: "classify_intent T \<in> set (map fst intent_patterns)"
  proof (cases "scan_intents intent_patterns (lower T)")
    case None
    then show ?thesis by (simp add: classify_intent_def intent_patterns_def)
  next
    case (Some i)
    then show ?thesis using scan_intents_Some_key[OF Some] by (simp add: classify_intent_def)
  qed
  then have expl: "classify_intent T \<in> {''program_overview'', ''indian_ocean_status'',
                           ''find_data_access'', ''nearest_floats_concept''}"
    by (simp add: intent_patterns_def)
  have dflt: "classify_intent T = ''program_overview''"
    if h: "\<forall>(intent, patterns) \<in> set intent_patterns.
             \<forall>pattern \<in> set patterns. \<not> re_search pattern (lower T)"
  proof -
    from h have "\<forall>(i, ps) \<in> set intent_patterns. \<not> match_patterns ps (lower T)"
      by (auto simp: match_patterns_iff)
    then have "scan_intents intent_patterns (lower T) = None"
      by (simp add: scan_intents_None_iff)
    then show ?thesis by (simp add: classify_intent_def)
  qed
  have dflt': "(\<forall>intent. \<not> matches_intent intent T) \<longrightarrow> classify_intent T = ''program_overview''"
    by (simp add: classify_cases)
  have e1: "classify_intent [] = ''program_overview''" by code_simp
  have e2: "classify_intent ''zzz_no_match_zzz'' = ''program_overview''" by code_simp
  from mem expl dflt dflt' e1 e2 show ?thesis by blast
qed

theorem classify_intent_total_witness:
  "classify_intent ''Where to download Argo data?'' \<in> set (map fst intent_patterns)
   \<and> classify_intent ''Tell me about whales'' = ''program_overview''
   \<and> classify_intent [] = ''program_overview''"
proof -
  have none: "\<forall>(intent, patterns) \<in> set intent_patterns.
                \<forall>pattern \<in> set patterns. \<not> re_search pattern (lower ''Tell me about whales'')"
    by code_simp
  from classify_intent_total[of "''Tell me about whales''"] none
  have w: "classify_intent ''Tell me about whales'' = ''program_overview''" by blast
  from classify_intent_total[of "''Where to download Argo data?''"] w show ?thesis by blast
qed

text \<open>
  Claim C8, as stated, fails: a text that matches a pattern of intent A and a pattern of
  a later intent B may also match an intent declared before A, and that one is
  returned. \<open>"argo floats near gdac"\<close> matches \<open>find_data_access\<close> (\<open>gdac\<close>) and the later
  \<open>nearest_floats_concept\<close> (\<open>floats near\<close>), and is classified \<open>program_overview\<close>
  (\<open>argo floats\<close>).
\<close>

theorem classify_returns_A_counterexample:
  "matches_intent ''find_data_access'' ''argo floats near gdac''
   \<and> matches_intent ''nearest_floats_concept'' ''argo floats near gdac''
   \<and> declared_before ''find_data_access'' ''nearest_floats_concept''
   \<and> classify_intent ''argo floats near gdac'' = ''program_overview''
   \<and> classify_intent ''argo floats near gdac'' \<noteq> ''find_data_access''"
  by code_simp

text \<open>
  Claim C8, amended. For a text T that matches a pattern of intent A and a pattern of
  intent B, A declared before B, \<open>classify_intent\<close> returns the first intent in
  declaration order one of whose patterns occurs in the lower-cased T: the result
  matches T, it is A or an intent declared before A, it is never B, and it is A
  whenever no intent declared before A matches T.
\<close>

theorem classify_first_match:
  assumes "matches_intent A T" and "matches_intent B T" and "declared_before A B"
  shows "classify_intent T \<noteq> B
       \<and> matches_intent (classify_intent T) T
       \<and> (classify_intent T = A \<or> declared_before (classify_intent T) A)
       \<and> ((\<forall>C. declared_before C A \<longrightarrow> \<not> matches_intent C T) \<longrightarrow> classify_intent T = A)"
proof -
  from assms(3) consider
      "A = ''program_overview''" "B \<in> {''indian_ocean_status'', ''find_data_access'', ''nearest_floats_concept''}"
    | "A = ''indian_ocean_status''" "B \<in> {''find_data_access'', ''nearest_floats_concept''}"
    | "A = ''find_data_access''" "B = ''nearest_floats_concept''"
    by (auto simp: declared_before_cases)
  then show ?thesis
  proof cases
    case 1
    with assms(1) show ?thesis by (auto simp: classify_cases)
  next
    case 2
    with assms(1) show ?thesis
      by (auto simp: classify_cases declared_before_cases)
  next
    case 3
    with assms(1) show ?thesis
      by (auto simp: classify_cases declared_before_cases)
  qed
qed

theorem classify_first_match_witness:
  "matches_intent ''find_data_access'' ''Floats near the GDAC''
   \<and> matches_intent ''nearest_floats_concept'' ''Floats near the GDAC''
   \<and> declared_before ''find_data_access'' ''nearest_floats_concept''
   \<and> classify_intent ''Floats near the GDAC'' = ''find_data_access''
   \<and> classify_intent ''Floats near the GDAC'' \<noteq> ''nearest_floats_concept''"
proof -
  have m1: "matches_intent ''find_data_access'' ''Floats near the GDAC''" by code_simp
  have m2: "matches_intent ''nearest_floats_concept'' ''Floats near the GDAC''" by code_simp
  have d: "declared_before ''find_data_access'' ''nearest_floats_concept''" by code_simp
  have n0: "\<not> matches_intent ''program_overview'' ''Floats near the GDAC''" by code_simp
  have n1: "\<not> matches_intent ''indian_ocean_status'' ''Floats near the GDAC''" by code_simp
  have none: "\<forall>C. declared_before C ''find_data_access''
                \<longrightarrow> \<not> matches_intent C ''Floats near the GDAC''"
    using n0 n1 by (auto simp: declared_before_cases)
  from classify_first_match[OF m1 m2 d] none m1 m2 d show ?thesis by blast
qed

text \<open>
  Claim C9. For every text T and every intent value, declared or not, \<open>enhance_query\<close>
  returns (it never raises) exactly T, one space, and the hint of the intent, which is
  the intent's entry of \<open>enhanced_queries\<close> and the entry of \<open>program_overview\<close> for a
  value with no entry; the result is not empty and starts with T.
\<close>

theorem enhance_query_hint:
  "enhance_query T intent = Inr (T @ '' '' @ hint_of intent)
   \<and> T @ '' '' @ hint_of intent \<noteq> []
   \<and> prefix T (T @ '' '' @ hint_of intent)
   \<and> (case map_of enhanced_queries intent of
         Some h \<Rightarrow> hint_of intent = h
       | None \<Rightarrow> hint_of intent = hint_of ''program_overview'')"
  by (simp add: enhance_query_def enhanced_queries_def hint_of_def)

theorem enhance_query_hint_witness:
  "enhance_query ''where is it'' ''no_such_intent'' =
     Inr ''where is it Argo program overview what variables measured temperature salinity pressure ocean profiling floats how it works''
   \<and> enhance_query [] ''find_data_access'' =
     Inr '' Argo data download access GDAC global data assembly centers netCDF files instructions how to''"
  using enhance_query_hint[of "''where is it''" "''no_such_intent''"]
        enhance_query_hint[of "[]" "''find_data_access''"]
  by (simp add: hint_of_def)

section \<open>Properties of the ranking\<close>

lemma index_of_less: "x \<in> set xs \<Longrightarrow> index_of x xs < length xs"
  by (induction xs) auto








text \<open>The recency score of a date that is a string, and of no date.\<close>

lemma recency_score_str:
  assumes "py_or (published r) (updated r) = JStr s" and "s \<noteq> []"
  shows "recency_score r =
           (if str_contains ''2024'' s \<or> str_contains ''2025'' s then - 1
            else if str_contains ''2023'' s then 0 else 1)"
  using assms by (simp add: recency_score_def Let_def split: bool.splits)

lemma recency_score_absent:
  "\<not> truthy (published r) \<Longrightarrow> \<not> truthy (updated r) \<Longrightarrow> recency_score r = 0"
  by (simp add: recency_score_def py_or_def)

lemma recency_score_range: "recency_score r \<in> {- 1, 0, 1}"
  by (simp add: recency_score_def Let_def split: sum.splits bool.splits)

text \<open>
  Claim C2 does not hold of the code. \<open>priority_score\<close> looks for the literal years
  \<open>2024\<close>, \<open>2025\<close> and \<open>2023\<close> anywhere in the date string, although its comments
  say \<open>prefer recent if date available\<close> and \<open>More recent = lower score (better)\<close>.
  The 2005 timestamp \<open>20050701T122024Z\<close> contains \<open>2024\<close> and gets the best score -1; a
  date of 2026 gets the score +1, and its result is sorted after an undated result of
  the same domain.
\<close>

theorem recency_score_stale_years:
  "recency_score (example_result 1 ''incois.gov.in'' (JStr ''20050701T122024Z'')) = - 1
   \<and> recency_score (example_result 1 ''incois.gov.in'' (JStr ''2026-01-15'')) = 1
   \<and> priority_idx (source (example_result 1 ''incois.gov.in'' (JStr ''2026-01-15'')))
       = priority_idx (source (example_result 2 ''incois.gov.in'' JNull))
   \<and> sort_by_priority [example_result 1 ''incois.gov.in'' (JStr ''2026-01-15''),
                        example_result 2 ''incois.gov.in'' JNull]
       = [example_result 2 ''incois.gov.in'' JNull,
          example_result 1 ''incois.gov.in'' (JStr ''2026-01-15'')]"
  by code_simp

section \<open>Properties of the source domain\<close>

lemma extract_domain_str:
  "netloc_of lib u = Some n \<Longrightarrow>
     extract_domain lib (JStr u) =
       (if prefix ''www.'' (lower n) then drop 4 (lower n) else lower n)"
  by (simp add: extract_domain_def Let_def)

lemma www_entries:
  "filter (prefix ''www.'') priority_domains =
     [''www.ocean-ops.org'', ''www.usgodae.org'', ''www.seanoe.org'', ''www.ncei.noaa.gov'',
      ''www.jcommops.org'', ''www.euro-argo.eu'', ''www.ifremer.fr'']"
  by (simp add: priority_domains_def)

lemma priority_idx_lt_iff: "priority_idx d < length priority_domains \<longleftrightarrow> d \<in> set priority_domains"
  by (simp add: priority_idx_def index_of_less)

lemma prefix_www_split: "prefix ''www.'' m \<Longrightarrow> m = ''www.'' @ drop 4 m"
  by (auto simp: prefix_def)

lemma www_host_unlisted:
  assumes "netloc_of lib u = Some n"
      and "lower n \<in> set (filter (prefix ''www.'') priority_domains)"
  shows "extract_domain lib (JStr u) \<notin> set priority_domains"
  using assms(2) unfolding extract_domain_str[OF assms(1)] www_entries
  by (auto simp: priority_domains_def)

lemma derived_listed_iff:
  assumes "netloc_of lib u = Some n"
  shows "extract_domain lib (JStr u) \<in> set priority_domains \<longleftrightarrow>
           lower n \<in> {''incois.gov.in'', ''argo.ucsd.edu'', ''doi.org''}
         \<or> (\<exists>e \<in> set priority_domains. lower n = ''www.'' @ e)"
proof (cases "prefix ''www.'' (lower n)")
  case True
  then have eq: "lower n = ''www.'' @ drop 4 (lower n)" by (rule prefix_www_split)
  have d: "extract_domain lib (JStr u) = drop 4 (lower n)"
    using True by (simp add: extract_domain_str[OF assms])
  have no3: "lower n \<notin> {''incois.gov.in'', ''argo.ucsd.edu'', ''doi.org''}"
    using True by auto
  show ?thesis
  proof
    assume "extract_domain lib (JStr u) \<in> set priority_domains"
    with d eq show "lower n \<in> {''incois.gov.in'', ''argo.ucsd.edu'', ''doi.org''}
         \<or> (\<exists>e \<in> set priority_domains. lower n = ''www.'' @ e)" by metis
  next
    assume "lower n \<in> {''incois.gov.in'', ''argo.ucsd.edu'', ''doi.org''}
         \<or> (\<exists>e \<in> set priority_domains. lower n = ''www.'' @ e)"
    with no3 obtain e where e: "e \<in> set priority_domains" "lower n = ''www.'' @ e" by blast
    then have "drop 4 (lower n) = e" by simp
    with d e show "extract_domain lib (JStr u) \<in> set priority_domains" by simp
  qed
next
  case False
  have d: "extract_domain lib (JStr u) = lower n"
    using False by (simp add: extract_domain_str[OF assms])
  have nw: "\<not> (\<exists>e \<in> set priority_domains. lower n = ''www.'' @ e)"
    using False by (auto simp: prefix_def)
  have "lower n \<in> set priority_domains \<longleftrightarrow> lower n \<in> {''incois.gov.in'', ''argo.ucsd.edu'', ''doi.org''}"
    using False by (auto simp: priority_domains_def)
  with d nw show ?thesis by simp
qed

text \<open>
  Claim C3, amended. The source domain derived from a string URL is the lower-cased
  \<open>netloc\<close> with one leading \<open>www.\<close> removed. Seven of the ten entries of
  \<open>priority_domains\<close> begin with \<open>www.\<close>; a result whose host is one of these seven
  gets a domain that is not in the list, hence the index 10 of an unknown domain. A
  domain gets an index below 10 exactly when it is in the list, and a derived domain
  is in the list exactly when the lower-cased host is \<open>incois.gov.in\<close>,
  \<open>argo.ucsd.edu\<close> or \<open>doi.org\<close>, or is \<open>www.\<close> followed by an entry of the list: one
  of those three behind \<open>www.\<close>, or one of the seven behind a second \<open>www.\<close>.
\<close>

theorem www_entries_unreachable:
  "(netloc_of lib u = Some n \<longrightarrow>
      extract_domain lib (JStr u) =
        (if prefix ''www.'' (lower n) then drop 4 (lower n) else lower n))
   \<and> length priority_domains = 10
   \<and> filter (prefix ''www.'') priority_domains =
       [''www.ocean-ops.org'', ''www.usgodae.org'', ''www.seanoe.org'', ''www.ncei.noaa.gov'',
        ''www.jcommops.org'', ''www.euro-argo.eu'', ''www.ifremer.fr'']
   \<and> (netloc_of lib u = Some n \<and> lower n \<in> set (filter (prefix ''www.'') priority_domains) \<longrightarrow>
        extract_domain lib (JStr u) \<notin> set priority_domains
        \<and> priority_idx (extract_domain lib (JStr u)) = length priority_domains)
   \<and> (priority_idx d < length priority_domains \<longleftrightarrow> d \<in> set priority_domains)
   \<and> (netloc_of lib u = Some n \<longrightarrow>
        (priority_idx (extract_domain lib (JStr u)) < length priority_domains \<longleftrightarrow>
           lower n \<in> {''incois.gov.in'', ''argo.ucsd.edu'', ''doi.org''}
         \<or> (\<exists>e \<in> set priority_domains. lower n = ''www.'' @ e)))"
proof -
  have a: "netloc_of lib u = Some n \<and> lower n \<in> set (filter (prefix ''www.'') priority_domains) \<longrightarrow>
        extract_domain lib (JStr u) \<notin> set priority_domains
        \<and> priority_idx (extract_domain lib (JStr u)) = length priority_domains"
    using www_host_unlisted[of lib u n] by (auto simp: priority_idx_def)
  have b: "netloc_of lib u = Some n \<longrightarrow>
        (priority_idx (extract_domain lib (JStr u)) < length priority_domains \<longleftrightarrow>
           lower n \<in> {''incois.gov.in'', ''argo.ucsd.edu'', ''doi.org''}
         \<or> (\<exists>e \<in> set priority_domains. lower n = ''www.'' @ e))"
    using derived_listed_iff[of lib u n] by (simp add: priority_idx_lt_iff)
  have c: "length priority_domains = 10" by (simp add: priority_domains_def)
  from a b c www_entries priority_idx_lt_iff[of d] extract_domain_str[of lib u n]
  show ?thesis by blast
qed

theorem www_entries_unreachable_witness:
  "extract_domain example_lib (JStr ''https://WWW.Ifremer.fr/argo'') = ''ifremer.fr''
   \<and> priority_idx (extract_domain example_lib (JStr ''https://WWW.Ifremer.fr/argo'')) = 10
   \<and> priority_idx (extract_domain example_lib (JStr ''https://www.incois.gov.in/'')) < 10"
proof -
  let ?u1 = "''https://WWW.Ifremer.fr/argo''" and ?u2 = "''https://www.incois.gov.in/''"
  have n1: "netloc_of example_lib ?u1 = Some ''WWW.Ifremer.fr''"
    by (simp add: example_lib_def example_netloc_def)
  have l1: "lower ''WWW.Ifremer.fr'' = ''www.ifremer.fr''" by code_simp
  have n2: "netloc_of example_lib ?u2 = Some ''www.incois.gov.in''"
    by (simp add: example_lib_def example_netloc_def)
  have l2: "lower ''www.incois.gov.in'' = ''www.incois.gov.in''" by code_simp
  have m1: "lower ''WWW.Ifremer.fr'' \<in> set (filter (prefix ''www.'') priority_domains)"
    unfolding l1 by (simp add: priority_domains_def)
  have m2: "\<exists>e \<in> set priority_domains. lower ''www.incois.gov.in'' = ''www.'' @ e"
    unfolding l2 by (simp add: priority_domains_def)
  note t1 = www_entries_unreachable[of example_lib ?u1 "''WWW.Ifremer.fr''" "[]"]
  note t2 = www_entries_unreachable[of example_lib ?u2 "''www.incois.gov.in''" "[]"]
  from t1 n1 have "extract_domain example_lib (JStr ?u1) =
      (if prefix ''www.'' (lower ''WWW.Ifremer.fr'') then drop 4 (lower ''WWW.Ifremer.fr'')
       else lower ''WWW.Ifremer.fr'')" by blast
  then have r0: "extract_domain example_lib (JStr ?u1) = ''ifremer.fr''" unfolding l1 by simp
  from t1 have len: "length priority_domains = 10" by blast
  from t1 n1 m1 have "priority_idx (extract_domain example_lib (JStr ?u1)) = length priority_domains"
    by blast
  with len have r1: "priority_idx (extract_domain example_lib (JStr ?u1)) = 10" by simp
  from t2 n2 m2 have "priority_idx (extract_domain example_lib (JStr ?u2)) < length priority_domains"
    by blast
  with len have r2: "priority_idx (extract_domain example_lib (JStr ?u2)) < 10" by simp
  from r0 r1 r2 show ?thesis by blast
qed

text \<open>
  Claim C3, as stated, fails in its last part: only one \<open>www.\<close> is removed, so the host
  \<open>www.www.ifremer.fr\<close> gives the source domain \<open>www.ifremer.fr\<close>, which is the tenth
  entry of the list and gets the index 9.
\<close>

theorem only_three_domains_counterexample:
  "extract_domain example_lib (JStr ''https://www.www.ifremer.fr/argo'') = ''www.ifremer.fr''
   \<and> priority_idx (extract_domain example_lib (JStr ''https://www.www.ifremer.fr/argo'')) = 9
   \<and> priority_idx ''www.ifremer.fr'' < length priority_domains
   \<and> ''www.ifremer.fr'' \<notin> {''incois.gov.in'', ''argo.ucsd.edu'', ''doi.org''}"
  by code_simp

section \<open>Properties of the search\<close>





lemma search_results_of_try:
  "fst (search lib backend api_key q sf tr k) =
     (case search_try lib (backend (search_params api_key q sf tr k)) k of
        Inr response \<Rightarrow> response
      | Inl e \<Rightarrow> \<lparr>results = []\<rparr>)"
  by (simp add: search_def Let_def split: sum.splits)

lemma search_calls: "snd (search lib backend api_key q sf tr k) = [search_params api_key q sf tr k]"
  by (simp add: search_def Let_def)




lemma is_disallowed_domain_iff:
  "is_disallowed_domain d \<longleftrightarrow> (\<exists>p \<in> set disallowed_patterns. str_contains p (lower d))"
  by (simp add: is_disallowed_domain_def Let_def list_ex_iff)

lemma parse_item_source:
  "parse_item lib idx item = Inr (Some r) \<Longrightarrow> \<not> is_disallowed_domain (source r)"
  by (auto simp: parse_item_def Let_def
           split: sum.splits if_splits bool.splits prod.splits option.splits)

lemma parse_item_dropped:
  "dict_get item ''link'' (JStr []) = Inr link \<Longrightarrow> is_disallowed_domain (extract_domain lib link)
     \<Longrightarrow> parse_item lib idx item = Inr None"
  by (simp add: parse_item_def)

lemma parse_items_sources:
  "parse_items lib idx xs acc = Inr rs \<Longrightarrow> \<forall>r \<in> set acc. \<not> is_disallowed_domain (source r)
     \<Longrightarrow> \<forall>r \<in> set rs. \<not> is_disallowed_domain (source r)"
proof (induction xs arbitrary: idx acc)
  case Nil
  then show ?case by simp
next
  case (Cons item rest)
  show ?case
  proof (cases "parse_item lib idx item")
    case (Inl e)
    with Cons.prems show ?thesis by simp
  next
    case (Inr o_r)
    show ?thesis
    proof (cases o_r)
      case None
      with Inr Cons.prems have "parse_items lib (Suc idx) rest acc = Inr rs" by simp
      from Cons.IH[OF this Cons.prems(2)] show ?thesis .
    next
      case (Some r)
      with Inr Cons.prems have p: "parse_items lib (Suc idx) rest (acc @ [r]) = Inr rs" by simp
      from Some Inr have "\<not> is_disallowed_domain (source r)" using parse_item_source by blast
      with Cons.prems(2) have "\<forall>x \<in> set (acc @ [r]). \<not> is_disallowed_domain (source x)" by simp
      from Cons.IH[OF p this] show ?thesis .
    qed
  qed
qed

lemma set_py_slice_to: "set (py_slice_to xs k) \<subseteq> set xs"
  by (auto simp: py_slice_to_def dest: in_set_takeD)

lemma length_py_slice_to: "0 \<le> k \<Longrightarrow> length (py_slice_to xs k) \<le> nat k"
  by (simp add: py_slice_to_def)

lemma search_try_Inr:
  assumes "search_try lib outcome k = Inr resp"
  shows "\<exists>status data items its kept.
           outcome = Response status (Some data)
         \<and> \<not> status_raises status
         \<and> dict_get data ''items'' (JArr []) = Inr items
         \<and> py_iter items = Inr its
         \<and> parse_items lib 0 its [] = Inr kept
         \<and> results resp = py_slice_to (sort_by_priority kept) k"
  using assms
  by (auto simp: search_try_def split: http_outcome.splits if_splits option.splits sum.splits)

lemma search_sources:
  "\<forall>r \<in> set (results (fst (search lib backend api_key q sf tr k))). \<not> is_disallowed_domain (source r)"
proof (cases "search_try lib (backend (search_params api_key q sf tr k)) k")
  case (Inl e)
  then show ?thesis by (simp add: search_results_of_try)
next
  case (Inr resp)
  from search_try_Inr[OF Inr] obtain its kept where
    k: "parse_items lib 0 its [] = Inr kept" "results resp = py_slice_to (sort_by_priority kept) k"
    by blast
  from parse_items_sources[OF k(1)] have "\<forall>r \<in> set kept. \<not> is_disallowed_domain (source r)" by simp
  moreover have "set (results resp) \<subseteq> set kept"
    using set_py_slice_to[of "sort_by_priority kept" k] by (simp add: k(2) sort_by_priority_def)
  ultimately show ?thesis using Inr by (auto simp: search_results_of_try)
qed

text \<open>
  Claim C5. No result returned by \<open>search\<close> has a source domain that contains a
  deny-list pattern (\<open>_is_disallowed_domain\<close> is this substring test on the lower-cased
  domain). A hit whose derived domain is disallowed is skipped by the loop, which goes
  on as if the hit were not there; and when the \<open>try\<close> block returns, its results are
  the list \<open>kept\<close> built by the loop, none of it disallowed, sorted and only then cut
  to \<open>top_k\<close>: the filter comes before the ranking and the cap.
\<close>

theorem search_drops_disallowed:
  "(\<forall>r \<in> set (results (fst (search lib backend api_key q sf tr k))).
       \<not> is_disallowed_domain (source r))
   \<and> (is_disallowed_domain d \<longleftrightarrow> (\<exists>p \<in> set disallowed_patterns. str_contains p (lower d)))
   \<and> (dict_get item ''link'' (JStr []) = Inr link \<and> is_disallowed_domain (extract_domain lib link)
        \<longrightarrow> parse_item lib idx item = Inr None
            \<and> parse_items lib idx (item # rest) acc = parse_items lib (Suc idx) rest acc)
   \<and> (search_try lib outcome k = Inr resp \<longrightarrow>
        (\<exists>status data items its kept.
            outcome = Response status (Some data)
          \<and> \<not> status_raises status
          \<and> dict_get data ''items'' (JArr []) = Inr items
          \<and> py_iter items = Inr its
          \<and> parse_items lib 0 its [] = Inr kept
          \<and> (\<forall>r \<in> set kept. \<not> is_disallowed_domain (source r))
          \<and> results resp = py_slice_to (sort_by_priority kept) k))"
proof -
  have c: "dict_get item ''link'' (JStr []) = Inr link \<and> is_disallowed_domain (extract_domain lib link)
        \<longrightarrow> parse_item lib idx item = Inr None
            \<and> parse_items lib idx (item # rest) acc = parse_items lib (Suc idx) rest acc"
    by (simp add: parse_item_dropped)
  have d: "search_try lib outcome k = Inr resp \<longrightarrow>
        (\<exists>status data items its kept.
            outcome = Response status (Some data)
          \<and> \<not> status_raises status
          \<and> dict_get data ''items'' (JArr []) = Inr items
          \<and> py_iter items = Inr its
          \<and> parse_items lib 0 its [] = Inr kept
          \<and> (\<forall>r \<in> set kept. \<not> is_disallowed_domain (source r))
          \<and> results resp = py_slice_to (sort_by_priority kept) k)"
  proof
    assume "search_try lib outcome k = Inr resp"
    from search_try_Inr[OF this] obtain status data items its kept where
      h: "outcome = Response status (Some data)" "\<not> status_raises status"
         "dict_get data ''items'' (JArr []) = Inr items"
         "py_iter items = Inr its" "parse_items lib 0 its [] = Inr kept"
         "results resp = py_slice_to (sort_by_priority kept) k" by blast
    from parse_items_sources[OF h(5)] have "\<forall>r \<in> set kept. \<not> is_disallowed_domain (source r)" by simp
    with h show "\<exists>status data items its kept.
            outcome = Response status (Some data)
          \<and> \<not> status_raises status
          \<and> dict_get data ''items'' (JArr []) = Inr items
          \<and> py_iter items = Inr its
          \<and> parse_items lib 0 its [] = Inr kept
          \<and> (\<forall>r \<in> set kept. \<not> is_disallowed_domain (source r))
          \<and> results resp = py_slice_to (sort_by_priority kept) k" by blast
  qed
  from search_sources[of lib backend api_key q sf tr k] is_disallowed_domain_iff[of d] c d
  show ?thesis by blast
qed

theorem search_drops_disallowed_witness:
  "dict_get (example_hit ''https://www.facebook.com/argo'') ''link'' (JStr [])
     = Inr (JStr ''https://www.facebook.com/argo'')
   \<and> is_disallowed_domain (extract_domain example_lib (JStr ''https://www.facebook.com/argo''))
   \<and> parse_item example_lib 1 (example_hit ''https://www.facebook.com/argo'') = Inr None
   \<and> ''facebook.com'' \<notin> source ` set (results (fst (search example_lib example_backend ''K'' ''argo'' None ''year'' 5)))"
proof -
  let ?item = "example_hit ''https://www.facebook.com/argo''"
  let ?link = "JStr ''https://www.facebook.com/argo''"
  have g: "dict_get ?item ''link'' (JStr []) = Inr ?link" by (simp add: example_hit_def)
  have e: "extract_domain example_lib ?link = ''facebook.com''" by code_simp
  have dis: "is_disallowed_domain ''facebook.com''" by code_simp
  note t = search_drops_disallowed[of example_lib example_backend "''K''" "''argo''" None "''year''" 5
             "''facebook.com''" ?item ?link 1 "[]" "[]" Raised "\<lparr>results = []\<rparr>"]
  from t g e dis have p: "parse_item example_lib 1 ?item = Inr None" by simp
  from t have "\<forall>r \<in> set (results (fst (search example_lib example_backend ''K'' ''argo'' None ''year'' 5))).
                  \<not> is_disallowed_domain (source r)"
    by (rule conjunct1)
  with dis
  have n: "''facebook.com'' \<notin> source ` set (results (fst (search example_lib example_backend ''K'' ''argo'' None ''year'' 5)))"
    by auto
  from g e dis p n show ?thesis by simp
qed

lemma reformat_all_length: "reformat_all lib rs = Inr as \<Longrightarrow> length as = length rs"
proof (induction rs arbitrary: as)
  case Nil
  then show ?case by simp
next
  case (Cons r rs)
  then show ?case
    by (cases "reformat lib r"; cases "reformat_all lib rs") auto
qed

lemma search_length: "0 \<le> k \<Longrightarrow> length (results (fst (search lib backend api_key q sf tr k))) \<le> nat k"
proof (cases "search_try lib (backend (search_params api_key q sf tr k)) k")
  case (Inl e)
  then show ?thesis by (simp add: search_results_of_try)
next
  case (Inr resp)
  assume k: "0 \<le> k"
  from search_try_Inr[OF Inr] obtain kept where "results resp = py_slice_to (sort_by_priority kept) k"
    by blast
  with length_py_slice_to[OF k] Inr show ?thesis by (simp add: search_results_of_try)
qed

lemma api_search_valid:
  assumes "1 \<le> rq_top_k req" "rq_top_k req \<le> 10"
      and "rq_time_range req \<in> {''any'', ''week'', ''month'', ''year''}"
  shows "api_search lib backend api_key now req =
           (case reformat_all lib (results (fst (search lib backend api_key (rq_query req)
                    (rq_site_filter req) (rq_time_range req) (rq_top_k req)))) of
              Inl msg \<Rightarrow> Inl (HTTPException 500 (''Search failed: '' @ msg))
            | Inr rs \<Rightarrow> Inr \<lparr>a_results = rs, a_timestamp = now\<rparr>,
            [search_params api_key (rq_query req) (rq_site_filter req) (rq_time_range req)
               (rq_top_k req)])"
  using assms search_calls[of lib backend api_key "rq_query req" "rq_site_filter req" "rq_time_range req" "rq_top_k req"]
  by (auto simp: api_search_def Let_def split: prod.splits sum.splits)

lemma api_search_Inr_valid:
  "fst (api_search lib backend api_key now req) = Inr resp \<Longrightarrow>
     1 \<le> rq_top_k req \<and> rq_top_k req \<le> 10
     \<and> rq_time_range req \<in> {''any'', ''week'', ''month'', ''year''}"
  by (auto simp: api_search_def split: if_splits)

text \<open>
  Claim C10. For every query and every \<open>top_k\<close> from 1 to 10, \<open>search\<close> returns at most
  \<open>top_k\<close> results, whatever the backend sends; and a successful answer of the
  \<open>/search\<close> endpoint holds at most \<open>top_k\<close>, hence at most 10, results.
\<close>

theorem search_cap:
  "(1 \<le> k \<and> k \<le> 10 \<longrightarrow>
      length (results (fst (search lib backend api_key q sf tr k))) \<le> nat k)
   \<and> (fst (api_search lib backend api_key now req) = Inr resp \<longrightarrow>
        length (a_results resp) \<le> nat (rq_top_k req) \<and> length (a_results resp) \<le> 10)"
proof -
  have a: "1 \<le> k \<and> k \<le> 10 \<longrightarrow>
      length (results (fst (search lib backend api_key q sf tr k))) \<le> nat k"
    using search_length[of k lib backend api_key q sf tr] by simp
  have b: "length (a_results resp) \<le> nat (rq_top_k req) \<and> length (a_results resp) \<le> 10"
    if h: "fst (api_search lib backend api_key now req) = Inr resp"
  proof -
    from api_search_Inr_valid[OF h] have v: "1 \<le> rq_top_k req" "rq_top_k req \<le> 10"
      "rq_time_range req \<in> {''any'', ''week'', ''month'', ''year''}" by auto
    let ?rs = "results (fst (search lib backend api_key (rq_query req)
                    (rq_site_filter req) (rq_time_range req) (rq_top_k req)))"
    from h api_search_valid[OF v, of lib backend api_key now]
    have "reformat_all lib ?rs = Inr (a_results resp)"
      by (auto split: sum.splits)
    then have "length (a_results resp) = length ?rs" by (rule reformat_all_length)
    moreover have "length ?rs \<le> nat (rq_top_k req)" using search_length v(1) by simp
    ultimately show ?thesis using v(2) by simp
  qed
  from a b show ?thesis by blast
qed

theorem search_cap_witness:
  "length (results (fst (search example_lib example_backend ''K'' ''argo'' None ''year'' 3))) \<le> 3
   \<and> length (results (fst (search example_lib example_backend ''K'' ''argo'' None ''year'' 10))) = 4"
proof -
  have "length (results (fst (search example_lib example_backend ''K'' ''argo'' None ''year'' 3))) \<le> nat 3"
    using search_cap[of 3 example_lib example_backend "''K''" "''argo''" None "''year''" "''now''"
            "\<lparr>rq_query = ''argo'', rq_site_filter = None, rq_time_range = ''year'', rq_top_k = 3\<rparr>"
            "\<lparr>a_results = [], a_timestamp = ''now''\<rparr>"]
    by simp
  moreover have "length (results (fst (search example_lib example_backend ''K'' ''argo'' None ''year'' 10))) = 4"
    by code_simp
  ultimately show ?thesis by simp
qed

text \<open>
  Claim C6. The \<open>/search\<close> endpoint answers a \<open>top_k\<close> below 1 or above 10, and a
  \<open>time_range\<close> other than any, week, month, year, with the error 400, having made no
  request to the backend. A valid request goes to \<open>WebSearchTool.search\<close> with its
  own query, site filter, time range and \<open>top_k\<close>: one request is made, its \<open>num\<close> is
  the \<open>top_k\<close> of the request (the \<open>min(top_k, 10)\<close> changes nothing), and the answer
  is not a 400.
\<close>

theorem api_search_validation:
  "(rq_top_k req < 1 \<or> rq_top_k req > 10 \<longrightarrow>
      api_search lib backend api_key now req
        = (Inl (HTTPException 400 ''top_k must be between 1 and 10''), []))
   \<and> (1 \<le> rq_top_k req \<and> rq_top_k req \<le> 10
       \<and> rq_time_range req \<notin> {''any'', ''week'', ''month'', ''year''} \<longrightarrow>
      api_search lib backend api_key now req = (Inl (HTTPException 400 ''Invalid time_range''), []))
   \<and> (1 \<le> rq_top_k req \<and> rq_top_k req \<le> 10
       \<and> rq_time_range req \<in> {''any'', ''week'', ''month'', ''year''} \<longrightarrow>
      snd (api_search lib backend api_key now req)
        = snd (search lib backend api_key (rq_query req) (rq_site_filter req) (rq_time_range req)
                 (rq_top_k req))
      \<and> snd (api_search lib backend api_key now req)
        = [search_params api_key (rq_query req) (rq_site_filter req) (rq_time_range req)
             (rq_top_k req)]
      \<and> p_num (search_params api_key (rq_query req) (rq_site_filter req) (rq_time_range req)
                 (rq_top_k req)) = rq_top_k req
      \<and> fst (api_search lib backend api_key now req)
        = (case reformat_all lib (results (fst (search lib backend api_key (rq_query req)
                    (rq_site_filter req) (rq_time_range req) (rq_top_k req)))) of
              Inl msg \<Rightarrow> Inl (HTTPException 500 (''Search failed: '' @ msg))
            | Inr rs \<Rightarrow> Inr \<lparr>a_results = rs, a_timestamp = now\<rparr>)
      \<and> (\<forall>d. fst (api_search lib backend api_key now req) \<noteq> Inl (HTTPException 400 d)))"
proof -
  have a: "rq_top_k req < 1 \<or> rq_top_k req > 10 \<longrightarrow>
      api_search lib backend api_key now req
        = (Inl (HTTPException 400 ''top_k must be between 1 and 10''), [])"
    by (simp add: api_search_def)
  have b: "1 \<le> rq_top_k req \<and> rq_top_k req \<le> 10
       \<and> rq_time_range req \<notin> {''any'', ''week'', ''month'', ''year''} \<longrightarrow>
      api_search lib backend api_key now req = (Inl (HTTPException 400 ''Invalid time_range''), [])"
    by (auto simp: api_search_def)
  have c: "snd (api_search lib backend api_key now req)
        = snd (search lib backend api_key (rq_query req) (rq_site_filter req) (rq_time_range req)
                 (rq_top_k req))
      \<and> snd (api_search lib backend api_key now req)
        = [search_params api_key (rq_query req) (rq_site_filter req) (rq_time_range req)
             (rq_top_k req)]
      \<and> p_num (search_params api_key (rq_query req) (rq_site_filter req) (rq_time_range req)
                 (rq_top_k req)) = rq_top_k req
      \<and> fst (api_search lib backend api_key now req)
        = (case reformat_all lib (results (fst (search lib backend api_key (rq_query req)
                    (rq_site_filter req) (rq_time_range req) (rq_top_k req)))) of
              Inl msg \<Rightarrow> Inl (HTTPException 500 (''Search failed: '' @ msg))
            | Inr rs \<Rightarrow> Inr \<lparr>a_results = rs, a_timestamp = now\<rparr>)
      \<and> (\<forall>d. fst (api_search lib backend api_key now req) \<noteq> Inl (HTTPException 400 d))"
    if v: "1 \<le> rq_top_k req \<and> rq_top_k req \<le> 10
       \<and> rq_time_range req \<in> {''any'', ''week'', ''month'', ''year''}"
  proof -
    from v have v': "1 \<le> rq_top_k req" "rq_top_k req \<le> 10"
      "rq_time_range req \<in> {''any'', ''week'', ''month'', ''year''}" by auto
    note e = api_search_valid[OF v', of lib backend api_key now]
    have n: "p_num (search_params api_key (rq_query req) (rq_site_filter req) (rq_time_range req)
                 (rq_top_k req)) = rq_top_k req"
      using v'(2) by (simp add: search_params_def)
    show ?thesis unfolding e using n by (simp add: search_calls split: sum.splits)
  qed
  from a b c show ?thesis by blast
qed

theorem api_search_validation_witness:
  "api_search example_lib example_backend ''K'' ''now''
      \<lparr>rq_query = ''argo'', rq_site_filter = None, rq_time_range = ''year'', rq_top_k = 0\<rparr>
     = (Inl (HTTPException 400 ''top_k must be between 1 and 10''), [])
   \<and> api_search example_lib example_backend ''K'' ''now''
      \<lparr>rq_query = ''argo'', rq_site_filter = None, rq_time_range = ''year'', rq_top_k = 11\<rparr>
     = (Inl (HTTPException 400 ''top_k must be between 1 and 10''), [])
   \<and> api_search example_lib example_backend ''K'' ''now''
      \<lparr>rq_query = ''argo'', rq_site_filter = None, rq_time_range = ''decade'', rq_top_k = 5\<rparr>
     = (Inl (HTTPException 400 ''Invalid time_range''), [])
   \<and> map p_num (snd (api_search example_lib example_backend ''K'' ''now''
      \<lparr>rq_query = ''argo'', rq_site_filter = None, rq_time_range = ''week'', rq_top_k = 10\<rparr>))
     = [10]"
proof -
  let ?r0 = "\<lparr>rq_query = ''argo'', rq_site_filter = None, rq_time_range = ''year'', rq_top_k = 0\<rparr>"
  let ?r11 = "\<lparr>rq_query = ''argo'', rq_site_filter = None, rq_time_range = ''year'', rq_top_k = 11\<rparr>"
  let ?rd = "\<lparr>rq_query = ''argo'', rq_site_filter = None, rq_time_range = ''decade'', rq_top_k = 5\<rparr>"
  let ?rv = "\<lparr>rq_query = ''argo'', rq_site_filter = None, rq_time_range = ''week'', rq_top_k = 10\<rparr>"
  have a: "api_search example_lib example_backend ''K'' ''now'' ?r0
     = (Inl (HTTPException 400 ''top_k must be between 1 and 10''), [])"
    using api_search_validation[of ?r0 example_lib example_backend "''K''" "''now''"] by simp
  have b: "api_search example_lib example_backend ''K'' ''now'' ?r11
     = (Inl (HTTPException 400 ''top_k must be between 1 and 10''), [])"
    using api_search_validation[of ?r11 example_lib example_backend "''K''" "''now''"] by simp
  have c: "api_search example_lib example_backend ''K'' ''now'' ?rd
     = (Inl (HTTPException 400 ''Invalid time_range''), [])"
    using api_search_validation[of ?rd example_lib example_backend "''K''" "''now''"] by simp
  have v: "1 \<le> rq_top_k ?rv \<and> rq_top_k ?rv \<le> 10
           \<and> rq_time_range ?rv \<in> {''any'', ''week'', ''month'', ''year''}" by simp
  from api_search_validation[of ?rv example_lib example_backend "''K''" "''now''"] v
  have "snd (api_search example_lib example_backend ''K'' ''now'' ?rv)
          = [search_params ''K'' (rq_query ?rv) (rq_site_filter ?rv) (rq_time_range ?rv) (rq_top_k ?rv)]
        \<and> p_num (search_params ''K'' (rq_query ?rv) (rq_site_filter ?rv) (rq_time_range ?rv)
                   (rq_top_k ?rv)) = rq_top_k ?rv"
    by blast
  then have d: "map p_num (snd (api_search example_lib example_backend ''K'' ''now'' ?rv)) = [10]"
    by simp
  from a b c d show ?thesis by simp
qed

end
